theory Spec2Isabelle
  imports Main "HOL-Library.AList"
begin

section \<open>Python values used by the Live View tab controller\<close>

text \<open>
  The controller is Python; the few primitives it relies on are written out here.
  A dictionary is an association list with \<open>AList.update\<close> as item assignment: an
  existing key keeps its position and gets the new value, a new key is appended, which is
  how a Python \<open>dict\<close> behaves. Indexing a list and subscripting a dictionary can raise;
  they return a sum with the error on the left.
\<close>

datatype py_error = IndexError | KeyError

type_synonym ('k, 'v) dict = "('k \<times> 'v) list"

definition dict_get :: "('k, 'v) dict \<Rightarrow> 'k \<Rightarrow> 'v option" where
  "dict_get d k = map_of d k"

definition dict_contains :: "'k \<Rightarrow> ('k, 'v) dict \<Rightarrow> bool" where
  "dict_contains k d = (map_of d k \<noteq> None)"

definition dict_getitem :: "('k, 'v) dict \<Rightarrow> 'k \<Rightarrow> py_error + 'v" where
  "dict_getitem d k = (case map_of d k of None \<Rightarrow> Inl KeyError | Some v \<Rightarrow> Inr v)"

definition dict_setitem :: "'k \<Rightarrow> 'v \<Rightarrow> ('k, 'v) dict \<Rightarrow> ('k, 'v) dict" where
  "dict_setitem k v d = AList.update k v d"

definition list_getitem :: "'a list \<Rightarrow> nat \<Rightarrow> py_error + 'a" where
  "list_getitem xs i = (if i < length xs then Inr (xs ! i) else Inl IndexError)"

text \<open>
  \<open>str.upper()\<close> on the ASCII letters; the status strings of the acquirer are ASCII
  words. Other characters are left as they are.
\<close>

definition char_upper :: "char \<Rightarrow> char" where
  "char_upper c =
     (case map_of (zip ''abcdefghijklmnopqrstuvwxyz'' ''ABCDEFGHIJKLMNOPQRSTUVWXYZ'') c of
        None \<Rightarrow> c
      | Some u \<Rightarrow> u)"

definition str_upper :: "string \<Rightarrow> string" where
  "str_upper s = map char_upper s"

text \<open>
  A value whose type the code does not fix (the acquirer's \<open>"error"\<close> entry): \<open>None\<close>,
  a string, or any other object, given by what the code observes of it, its truth value
  and its \<open>str()\<close>.
\<close>

datatype py_val = PyNone | PyStr string | PyObj bool string

fun truthy :: "py_val \<Rightarrow> bool" where
  "truthy PyNone = False"
| "truthy (PyStr s) = (s \<noteq> [])"
| "truthy (PyObj b s) = b"

fun to_str :: "py_val \<Rightarrow> string" where
  "to_str PyNone = ''None''"
| "to_str (PyStr s) = s"
| "to_str (PyObj b s) = s"

text \<open>
  A Dash component id: a plain string or a dictionary (pattern-matching id); \<open>NoId\<close>
  stands for \<open>None\<close> and any other value that is neither.
\<close>

datatype dash_id = NoId | StrId string | DictId "(string, string) dict"

section \<open>The logger\<close>

text \<open>
  Every function returns the records it logs, in order. A record keeps the level and the
  values interpolated into the message.
\<close>

datatype log_msg =
    ToggleClicked string
  | AttemptStop
  | AttemptStart
  | StatusTriggeredExternally string
  | ValueMissing dash_id dash_id
  | UnexpectedIdFormat dash_id dash_id
  | TabActivated string
  | TabDeactivated string
  | NoLiveVersion string string
  | GeneratingLayout string

datatype log_record = LogDebug log_msg | LogInfo log_msg | LogWarning log_msg

section \<open>Dash component trees\<close>

text \<open>
  A layout is a tree of components. A component has the name of its class, its keyword
  properties in the order they are written (the \<open>id\<close> among them) and its
  children; a string child is a \<open>Text\<close> leaf, a single child a list of one.
\<close>

datatype prop_val =
    PStr string
  | PInt int
  | PBool bool
  | PStyle "(string, string) dict"
  | PId dash_id

datatype component =
    Text string
  | Component string "(string, prop_val) dict" "component list"

text \<open>
  What a layout holds under an id: the first component, in document order, whose
  \<open>id\<close> property is that id.
\<close>

fun find_by_id :: "dash_id \<Rightarrow> component \<Rightarrow> component option"
  and find_in_children :: "dash_id \<Rightarrow> component list \<Rightarrow> component option" where
  "find_by_id i (Text t) = None"
| "find_by_id i (Component cls props children) =
     (if map_of props ''id'' = Some (PId i) then Some (Component cls props children)
      else find_in_children i children)"
| "find_in_children i [] = None"
| "find_in_children i (c # cs) =
     (case find_by_id i c of Some r \<Rightarrow> Some r | None \<Rightarrow> find_in_children i cs)"

section \<open>The data acquirer, as the controller sees it\<close>

text \<open>
  \<open>BaseDataAcquirer\<close> is outside the sources at hand, so the acquirer is a parameter:
  a state of any type \<open>'s\<close> and the methods the controller calls on it. The snapshot
  returned by \<open>get_latest_data()\<close> is a dictionary read with
  \<open>.get("status", "unknown")\<close> and \<open>.get("error")\<close>; each of the two entries may
  be absent. The parameter update is the mapping component id to (parameter name to value).
  \<open>acquirer_bool\<close> is the truth value of the acquirer object itself.
  The status entry, when present, is a string, and the methods are taken to return: the
  controller catches nothing, so an exception raised inside the acquirer would leave the
  callback with it and is not part of this model.
\<close>

record acquirer_state =
  status :: "string option"
  error :: "py_val option"

type_synonym 'v params = "(string, (string, 'v) dict) dict"

record ('s, 'v) acquirer =
  get_latest_data :: "'s \<Rightarrow> acquirer_state"
  start_acquisition :: "'s \<Rightarrow> 's"
  stop_acquisition :: "'s \<Rightarrow> 's"
  update_parameters :: "'v params \<Rightarrow> 's \<Rightarrow> 's"
  get_dash_components :: "'s \<Rightarrow> component list"
  acquirer_bool :: "'s \<Rightarrow> bool"

section \<open>LiveViewTabController\<close>

text \<open>
  The controller itself: its component id and \<open>_get_id\<close>, inherited from a base class
  outside the sources and therefore a field of the record.
\<close>

record live_view_tab_controller =
  component_id :: string
  get_id :: "string \<Rightarrow> dash_id"

definition TOGGLE_ACQ_BUTTON_ID_SUFFIX :: string where
  "TOGGLE_ACQ_BUTTON_ID_SUFFIX = ''toggle-acq-button''"

definition ACQUIRER_CONTROLS_DIV_ID_SUFFIX :: string where
  "ACQUIRER_CONTROLS_DIV_ID_SUFFIX = ''acquirer-controls-div''"

definition ACQUIRER_STATUS_INDICATOR_ID_SUFFIX :: string where
  "ACQUIRER_STATUS_INDICATOR_ID_SUFFIX = ''acquirer-status-indicator''"

definition DUMMY_OUTPUT_ACQUIRER_UPDATE_SUFFIX :: string where
  "DUMMY_OUTPUT_ACQUIRER_UPDATE_SUFFIX = ''dummy-output-acquirer-updates''"

subsection \<open>The toggle and status callback\<close>

text \<open>
  \<open>handle_acquisition_control_and_status_update\<close>: the triggering id comes from
  \<open>ctx.triggered_id\<close>, the acquirer's state goes in and comes out. The result is the
  four outputs (button text, button colour, badge text, badge colour), the acquirer's
  state after the call and the log records.
\<close>

definition is_button_click :: "live_view_tab_controller \<Rightarrow> dash_id \<Rightarrow> bool" where
  "is_button_click self triggered_input_id_obj =
     (case triggered_input_id_obj of
        DictId d \<Rightarrow> dict_get d ''index'' = Some TOGGLE_ACQ_BUTTON_ID_SUFFIX
      | StrId s \<Rightarrow> get_id self TOGGLE_ACQ_BUTTON_ID_SUFFIX = StrId s
      | NoId \<Rightarrow> False)"

definition current_status_of :: "acquirer_state \<Rightarrow> string" where
  "current_status_of acquirer_state =
     str_upper (case status acquirer_state of None \<Rightarrow> ''unknown'' | Some x \<Rightarrow> x)"

definition error_details_of :: "acquirer_state \<Rightarrow> py_val" where
  "error_details_of acquirer_state =
     (case error acquirer_state of None \<Rightarrow> PyNone | Some e \<Rightarrow> e)"

definition handle_acquisition_control_and_status_update ::
  "live_view_tab_controller \<Rightarrow> ('s, 'v) acquirer \<Rightarrow> dash_id \<Rightarrow> 's
     \<Rightarrow> (string \<times> string \<times> string \<times> string) \<times> 's \<times> log_record list" where
  "handle_acquisition_control_and_status_update self acq triggered_input_id_obj s =
     (let acquirer_state = get_latest_data acq s;
          current_status = current_status_of acquirer_state;
          error_details = error_details_of acquirer_state
      in
        if is_button_click self triggered_input_id_obj then
          (if current_status = ''RUNNING'' then
             ((''Start Acquisition'', ''success'', ''STOPPED'', ''secondary''),
              stop_acquisition acq s,
              [LogDebug (ToggleClicked current_status), LogInfo AttemptStop])
           else
             ((''Stop Acquisition'', ''danger'', ''RUNNING'', ''success''),
              start_acquisition acq s,
              [LogDebug (ToggleClicked current_status), LogInfo AttemptStart]))
        else
          (let logs = (if current_status \<noteq> ''STOPPED''
                       then [LogDebug (StatusTriggeredExternally current_status)] else [])
           in
             if current_status = ''RUNNING'' then
               ((''Stop Acquisition'', ''danger'', ''RUNNING'', ''success''), s, logs)
             else if current_status = ''STOPPED'' then
               ((''Start Acquisition'', ''success'', ''STOPPED'', ''secondary''), s, logs)
             else if current_status = ''ERROR'' then
               ((''Start Acquisition'', ''success'',
                 take 100 (''ERROR'' @
                   (if truthy error_details then '': '' @ to_str error_details else [])),
                 ''danger''), s, logs)
             else
               ((''Start Acquisition'', ''warning'', current_status, ''warning''), s, logs)))"

subsection \<open>The parameter callback\<close>

text \<open>
  \<open>_parse_component_parameters\<close>. The body of the loop is \<open>parse_param\<close>, the
  loop over \<open>enumerate(ids)\<close> is \<open>parse_loop\<close>. The subscripts
  \<open>param_id_dict["index"]\<close> and \<open>values[idx]\<close> are the raising ones.
  The parameter \<open>component_id\<close> of the source is \<open>comp_id\<close> here.
\<close>

definition parse_param ::
  "dash_id \<Rightarrow> 'v list \<Rightarrow> nat \<Rightarrow> dash_id
     \<Rightarrow> (string, 'v) dict \<times> log_record list
     \<Rightarrow> py_error + ((string, 'v) dict \<times> log_record list)" where
  "parse_param comp_id values idx param_id_dict acc =
     (case acc of (current_type_params, logs) \<Rightarrow>
       (case param_id_dict of
          DictId d \<Rightarrow>
            if dict_contains ''index'' d then
              (case dict_getitem d ''index'' of
                 Inl e \<Rightarrow> Inl e
               | Inr param_name \<Rightarrow>
                   if idx < length values then
                     (case list_getitem values idx of
                        Inl e \<Rightarrow> Inl e
                      | Inr param_value \<Rightarrow>
                          Inr (dict_setitem param_name param_value current_type_params, logs))
                   else
                     Inr (current_type_params,
                          logs @ [LogWarning (ValueMissing param_id_dict comp_id)]))
            else
              Inr (current_type_params,
                   logs @ [LogWarning (UnexpectedIdFormat param_id_dict comp_id)])
        | _ \<Rightarrow>
            Inr (current_type_params,
                 logs @ [LogWarning (UnexpectedIdFormat param_id_dict comp_id)])))"

fun parse_loop ::
  "dash_id \<Rightarrow> 'v list \<Rightarrow> nat \<Rightarrow> dash_id list
     \<Rightarrow> (string, 'v) dict \<times> log_record list
     \<Rightarrow> py_error + ((string, 'v) dict \<times> log_record list)" where
  "parse_loop comp_id values idx [] acc = Inr acc"
| "parse_loop comp_id values idx (param_id_dict # ids) acc =
     (case parse_param comp_id values idx param_id_dict acc of
        Inl e \<Rightarrow> Inl e
      | Inr acc' \<Rightarrow> parse_loop comp_id values (Suc idx) ids acc')"

definition parse_component_parameters ::
  "dash_id \<Rightarrow> 'v list \<Rightarrow> dash_id list
     \<Rightarrow> py_error + ((string, 'v) dict \<times> log_record list)" where
  "parse_component_parameters comp_id values ids =
     (if values = [] \<or> ids = [] then Inr ([], [])
      else parse_loop comp_id values 0 ids ([], []))"

text \<open>
  \<open>handle_acquirer_parameter_update(*args)\<close>. Dash passes the values of the
  \<open>n\<close> Inputs followed by the ids of the \<open>n\<close> States, one of each per
  component of \<open>all_acquirer_components\<close>; \<open>values_by_type_list\<close> and
  \<open>ids_by_type_list\<close> are the two slices of \<open>args\<close>, and a slice
  shorter than the component list makes the subscript raise. A component is given by its
  \<open>component_id\<close>. The callback returns \<open>dash.no_update\<close>.
\<close>

datatype callback_output = NoUpdate

fun update_loop ::
  "string list \<Rightarrow> nat \<Rightarrow> 'v list list \<Rightarrow> dash_id list list
     \<Rightarrow> 'v params \<times> log_record list
     \<Rightarrow> py_error + ('v params \<times> log_record list)" where
  "update_loop [] i values_by_type_list ids_by_type_list acc = Inr acc"
| "update_loop (component # components) i values_by_type_list ids_by_type_list acc =
     (case acc of (parameters_to_update, logs) \<Rightarrow>
       (case list_getitem values_by_type_list i of
          Inl e \<Rightarrow> Inl e
        | Inr values \<Rightarrow>
            (case list_getitem ids_by_type_list i of
               Inl e \<Rightarrow> Inl e
             | Inr ids \<Rightarrow>
                 (case parse_component_parameters (StrId component) values ids of
                    Inl e \<Rightarrow> Inl e
                  | Inr (component_params, new_logs) \<Rightarrow>
                      update_loop components (Suc i) values_by_type_list ids_by_type_list
                        (if component_params = [] then parameters_to_update
                         else dict_setitem component component_params parameters_to_update,
                         logs @ new_logs)))))"

definition handle_acquirer_parameter_update ::
  "string list \<Rightarrow> ('s, 'v) acquirer \<Rightarrow> 'v list list \<Rightarrow> dash_id list list \<Rightarrow> 's
     \<Rightarrow> py_error + (callback_output \<times> 's \<times> log_record list)" where
  "handle_acquirer_parameter_update all_acquirer_components acq
       values_by_type_list ids_by_type_list s =
     (case update_loop all_acquirer_components 0 values_by_type_list ids_by_type_list
             ([], []) of
        Inl e \<Rightarrow> Inl e
      | Inr (parameters_to_update, logs) \<Rightarrow>
          Inr (NoUpdate, update_parameters acq parameters_to_update s, logs))"


subsection \<open>Activation and deactivation\<close>

text \<open>
  \<open>on_tab_activated\<close> reads the module \<open>data_registry\<close> and three class
  constants of \<open>VideoModeComponent\<close>; both are outside the sources and are
  parameters here: the registry by its reserved key and its version query over a registry
  state \<open>'r\<close>, the constants by their values. \<open>uuid4\<close> is the string
  \<open>str(uuid.uuid4())\<close> evaluates to in this call. A dictionary display
  \<open>{k1: v1, ...}\<close> assigns its items from left to right.
\<close>

record video_mode_component =
  VIEWER_DATA_STORE_SUFFIX :: string
  VIEWER_UI_STATE_STORE_SUFFIX :: string
  VIEWER_LAYOUT_CONFIG_STORE_SUFFIX :: string

record 'r data_registry =
  LIVE_DATA_KEY :: string
  get_current_version :: "'r \<Rightarrow> string \<Rightarrow> string option"

definition dict_display :: "('k \<times> 'v) list \<Rightarrow> ('k, 'v) dict" where
  "dict_display items = foldl (\<lambda>d (k, v). dict_setitem k v d) [] items"

definition on_tab_activated ::
  "live_view_tab_controller \<Rightarrow> video_mode_component \<Rightarrow> 'r data_registry \<Rightarrow> 'r \<Rightarrow> string
     \<Rightarrow> (string, (string, string) dict) dict \<times> log_record list" where
  "on_tab_activated self vmc registry r uuid4 =
     (let found = get_current_version registry r (LIVE_DATA_KEY registry);
          current_live_version = (case found of None \<Rightarrow> uuid4 | Some v \<Rightarrow> v);
          logs = LogInfo (TabActivated (component_id self)) #
                 (case found of
                    None \<Rightarrow> [LogDebug (NoLiveVersion (component_id self) uuid4)]
                  | Some v \<Rightarrow> []);
          viewer_data_payload =
            dict_display [(''key'', LIVE_DATA_KEY registry),
                          (''version'', current_live_version)];
          updates =
            dict_display [(VIEWER_DATA_STORE_SUFFIX vmc, viewer_data_payload),
                          (VIEWER_UI_STATE_STORE_SUFFIX vmc, dict_display []),
                          (VIEWER_LAYOUT_CONFIG_STORE_SUFFIX vmc, dict_display [])]
      in (updates, logs))"

text \<open>
  \<open>on_tab_deactivated\<close> logs and returns \<open>None\<close>; the acquirer's state is
  passed through it as through every method of the controller.
\<close>

definition on_tab_deactivated ::
  "live_view_tab_controller \<Rightarrow> ('s, 'v) acquirer \<Rightarrow> 's \<Rightarrow> unit \<times> 's \<times> log_record list" where
  "on_tab_deactivated self acq s = ((), s, [LogInfo (TabDeactivated (component_id self))])"

subsection \<open>The layout\<close>

text \<open>
  \<open>get_layout\<close>, with the local variables of the source as definitions of their
  own. The acquirer's controls come from \<open>get_dash_components\<close>.
\<close>

definition toggle_button_and_status :: "live_view_tab_controller \<Rightarrow> component" where
  "toggle_button_and_status self =
     Component ''Row''
       [(''className'', PStr ''mb-3 align-items-center'')]
       [Component ''Col'' [(''width'', PInt 8)]
          [Component ''Button''
             [(''id'', PId (get_id self TOGGLE_ACQ_BUTTON_ID_SUFFIX)),
              (''color'', PStr ''success''),
              (''className'', PStr ''me-1''),
              (''style'', PStyle [(''width'', ''100%'')])]
             [Text ''Start Acquisition'']],
        Component ''Col'' [(''width'', PInt 4)]
          [Component ''Div''
             [(''className'', PStr ''d-flex align-items-center justify-content-center h-100'')]
             [Component ''Badge''
                [(''id'', PId (get_id self ACQUIRER_STATUS_INDICATOR_ID_SUFFIX)),
                 (''color'', PStr ''secondary''),
                 (''className'', PStr ''ms-1 p-2''),
                 (''style'', PStyle [(''fontSize'', ''0.9rem''), (''width'', ''100%''),
                                    (''textAlign'', ''center'')])]
                [Text ''STOPPED'']]]]"

definition acquirer_specific_controls :: "('s, 'v) acquirer \<Rightarrow> 's \<Rightarrow> component list" where
  "acquirer_specific_controls acq s =
     (if acquirer_bool acq s then get_dash_components acq s
      else [Component ''P'' [] [Text ''Data acquirer components could not be loaded.'']])"

definition acquirer_controls_div ::
  "live_view_tab_controller \<Rightarrow> ('s, 'v) acquirer \<Rightarrow> 's \<Rightarrow> component" where
  "acquirer_controls_div self acq s =
     Component ''Div''
       [(''id'', PId (get_id self ACQUIRER_CONTROLS_DIV_ID_SUFFIX)),
        (''className'', PStr ''mt-3 p-3 border rounded'')]
       (acquirer_specific_controls acq s)"

definition get_layout ::
  "live_view_tab_controller \<Rightarrow> ('s, 'v) acquirer \<Rightarrow> 's \<Rightarrow> component \<times> log_record list" where
  "get_layout self acq s =
     (Component ''Card''
        [(''color'', PStr ''dark''), (''inverse'', PBool True),
         (''className'', PStr ''tab-card-dark'')]
        [Component ''CardBody'' []
           [Component ''H5'' [(''className'', PStr ''card-title text-light'')]
              [Text ''Live Acquisition Control''],
            toggle_button_and_status self,
            Component ''Hr'' [] [],
            Component ''H6'' [(''className'', PStr ''text-light'')]
              [Text ''Acquirer Parameters''],
            acquirer_controls_div self acq s,
            Component ''Div''
              [(''id'', PId (get_id self DUMMY_OUTPUT_ACQUIRER_UPDATE_SUFFIX)),
               (''style'', PStyle [(''display'', ''none'')])]
              []]],
      [LogDebug (GeneratingLayout (component_id self))])"

section \<open>The data registry\<close>

text \<open>
  Modelled from the spec: the registry module \<open>data_registry\<close> is not among the
  sources. An entry holds the payload together with its version; the registry maps a key
  to its latest entry.
\<close>

type_synonym ('p, 'ver) registry = "(string, 'p \<times> 'ver) dict"

text \<open>
  Modelled from the spec: \<open>get_current_version(key) -> version | None\<close>, the
  version of the latest entry without its payload.
\<close>

definition registry_get_current_version :: "('p, 'ver) registry \<Rightarrow> string \<Rightarrow> 'ver option" where
  "registry_get_current_version reg key = map_option snd (dict_get reg key)"

text \<open>
  Modelled from the spec: \<open>write(key, payload) -> version\<close> stores the payload
  under the key, computes a new version from the previous one for that key and returns
  it. How the new version is computed is the parameter \<open>new_version\<close>.
\<close>

definition registry_write ::
  "('ver option \<Rightarrow> 'ver) \<Rightarrow> string \<Rightarrow> 'p \<Rightarrow> ('p, 'ver) registry
     \<Rightarrow> 'ver \<times> ('p, 'ver) registry" where
  "registry_write new_version key payload reg =
     (let v = new_version (registry_get_current_version reg key)
      in (v, dict_setitem key (payload, v) reg))"

text \<open>
  Modelled from the spec: \<open>read(key) -> (payload, version) | NotFound\<close> returns
  the latest snapshot and fails with \<open>NotFound\<close> for a key never written.
\<close>

datatype registry_error = NotFound

definition registry_read ::
  "('p, 'ver) registry \<Rightarrow> string \<Rightarrow> registry_error + ('p \<times> 'ver)" where
  "registry_read reg key =
     (case dict_get reg key of None \<Rightarrow> Inl NotFound | Some entry \<Rightarrow> Inr entry)"

text \<open>A run of writes, each given by its key and payload, in order.\<close>

definition registry_writes ::
  "('ver option \<Rightarrow> 'ver) \<Rightarrow> (string \<times> 'p) list \<Rightarrow> ('p, 'ver) registry
     \<Rightarrow> ('p, 'ver) registry" where
  "registry_writes new_version ws reg =
     foldl (\<lambda>r (k, p). snd (registry_write new_version k p r)) reg ws"

text \<open>
  What the writes of a run returned: for each write its key, its payload and the version
  it reported, in order.
\<close>

fun registry_history ::
  "('ver option \<Rightarrow> 'ver) \<Rightarrow> (string \<times> 'p) list \<Rightarrow> ('p, 'ver) registry
     \<Rightarrow> (string \<times> 'p \<times> 'ver) list" where
  "registry_history new_version [] reg = []"
| "registry_history new_version ((k, p) # ws) reg =
     (k, p, fst (registry_write new_version k p reg)) #
     registry_history new_version ws (snd (registry_write new_version k p reg))"

section \<open>Well-formed entries of a parameter batch\<close>

text \<open>
  The words of the specification about a parameter batch, as definitions to compare the
  code with; none of them is used by the code above. The id metadata of an entry is well formed when it is a dictionary with an
  \<open>"index"\<close> field, whose value is then the parameter's name. The well-formed
  (id, value) pairs of a batch are the entries that have both a well-formed id and a
  value, as (name, value), in batch order.
\<close>

definition param_name_of :: "dash_id \<Rightarrow> string option" where
  "param_name_of i = (case i of DictId d \<Rightarrow> map_of d ''index'' | _ \<Rightarrow> None)"

definition well_formed_id :: "dash_id \<Rightarrow> bool" where
  "well_formed_id i = (param_name_of i \<noteq> None)"

fun well_formed_pairs :: "'v list \<Rightarrow> dash_id list \<Rightarrow> (string \<times> 'v) list" where
  "well_formed_pairs (v # values) (i # ids) =
     (case param_name_of i of
        Some name \<Rightarrow> (name, v) # well_formed_pairs values ids
      | None \<Rightarrow> well_formed_pairs values ids)"
| "well_formed_pairs values ids = []"

text \<open>
  The parameters a component contributes, and the warnings the parsing loop emits from
  position \<open>idx\<close> on.
\<close>

definition parsed_params :: "'v list \<Rightarrow> dash_id list \<Rightarrow> (string, 'v) dict" where
  "parsed_params values ids = dict_display (well_formed_pairs values ids)"

fun parse_warnings :: "dash_id \<Rightarrow> 'v list \<Rightarrow> nat \<Rightarrow> dash_id list \<Rightarrow> log_record list" where
  "parse_warnings c values idx [] = []"
| "parse_warnings c values idx (i # ids) =
     (if well_formed_id i then
        (if idx < length values then [] else [LogWarning (ValueMissing i c)])
      else [LogWarning (UnexpectedIdFormat i c)])
     @ parse_warnings c values (Suc idx) ids"

fun regroup ::
  "string list \<Rightarrow> 'v list list \<Rightarrow> dash_id list list \<Rightarrow> 'v params \<Rightarrow> 'v params" where
  "regroup (c # cs) (values # vs) (ids # is) d =
     regroup cs vs is
       (if parsed_params values ids = [] then d
        else dict_setitem c (parsed_params values ids) d)"
| "regroup cs vs is d = d"

section \<open>Concrete instances\<close>

text \<open>
  An acquirer whose state is a counter: zero reports \<open>running\<close>, one reports an
  error with a long detail, anything else \<open>stopped\<close>; stopping adds one, starting
  adds ten, a parameter update adds the number of components updated.
\<close>

definition demo_acquirer :: "(nat, int) acquirer" where
  "demo_acquirer =
     \<lparr>get_latest_data = (\<lambda>n.
        if n = 0 then \<lparr>status = Some ''running'', error = None\<rparr>
        else if n = 1 then \<lparr>status = Some ''error'', error = Some (PyStr (replicate 200 CHR ''x''))\<rparr>
        else \<lparr>status = Some ''stopped'', error = None\<rparr>),
      start_acquisition = (\<lambda>n. n + 10),
      stop_acquisition = (\<lambda>n. n + 1),
      update_parameters = (\<lambda>p n. n + length p),
      get_dash_components = (\<lambda>n. []),
      acquirer_bool = (\<lambda>n. True)\<rparr>"

definition demo_controller :: live_view_tab_controller where
  "demo_controller =
     \<lparr>component_id = ''live-view-tab-controller'',
      get_id = (\<lambda>i. DictId [(''type'', ''live-view-tab-controller''), (''index'', i)])\<rparr>"

definition demo_button_id :: dash_id where
  "demo_button_id =
     DictId [(''type'', ''live-view-tab-controller''), (''index'', ''toggle-acq-button'')]"

definition demo_video_mode_component :: video_mode_component where
  "demo_video_mode_component =
     \<lparr>VIEWER_DATA_STORE_SUFFIX = ''viewer-data-store'',
      VIEWER_UI_STATE_STORE_SUFFIX = ''viewer-ui-state-store'',
      VIEWER_LAYOUT_CONFIG_STORE_SUFFIX = ''viewer-layout-config-store''\<rparr>"

definition demo_data_registry :: "((string, string) dict) data_registry" where
  "demo_data_registry =
     \<lparr>LIVE_DATA_KEY = ''live_data'', get_current_version = (\<lambda>r k. map_of r k)\<rparr>"

definition demo_ids :: "dash_id list" where
  "demo_ids =
     [DictId [(''type'', ''x-axis''), (''index'', ''span'')],
      DictId [(''type'', ''x-axis'')],
      DictId [(''type'', ''x-axis''), (''index'', ''points'')]]"

definition demo_values :: "int list" where
  "demo_values = [3, 4, 5]"

section \<open>Lemmas about the parameter callback\<close>

text \<open>
  One pass of the loop body never raises: the two subscripts are guarded by the tests
  before them.
\<close>

lemma parse_param_eq:
  "parse_param c values idx p (d, l) =
     Inr (case param_name_of p of
            Some name \<Rightarrow>
              if idx < length values then (dict_setitem name (values ! idx) d, l)
              else (d, l @ [LogWarning (ValueMissing p c)])
          | None \<Rightarrow> (d, l @ [LogWarning (UnexpectedIdFormat p c)]))"
  by (cases p)
     (auto simp: parse_param_def param_name_of_def dict_contains_def dict_getitem_def
                 list_getitem_def split: option.splits)

lemma well_formed_pairs_drop_ge:
  "length values \<le> idx \<Longrightarrow> well_formed_pairs (drop idx values) ids = []"
  by simp

lemma parse_loop_eq:
  "parse_loop c values idx ids (d, l) =
     Inr (foldl (\<lambda>d (k, v). dict_setitem k v d) d (well_formed_pairs (drop idx values) ids),
          l @ parse_warnings c values idx ids)"
proof (induction ids arbitrary: idx d l)
  case Nil
  show ?case by (cases "drop idx values") simp_all
next
  case (Cons p ps)
  show ?case
  proof (cases "idx < length values")
    case True
    then have dr: "drop idx values = (values ! idx) # drop (Suc idx) values"
      by (simp add: Cons_nth_drop_Suc)
    show ?thesis
      using True
      by (cases "param_name_of p")
         (simp_all add: parse_param_eq Cons.IH dr well_formed_id_def)
  next
    case False
    then have dr: "drop idx values = []" "drop (Suc idx) values = []" by simp_all
    show ?thesis
      using False
      by (cases "param_name_of p")
         (simp_all add: parse_param_eq Cons.IH dr well_formed_id_def)
  qed
qed

lemma parse_component_parameters_eq:
  "parse_component_parameters c values ids =
     Inr (parsed_params values ids,
          if values = [] \<or> ids = [] then [] else parse_warnings c values 0 ids)"
proof (cases "values = [] \<or> ids = []")
  case True
  then have "well_formed_pairs values ids = []"
    by (cases "values"; cases ids) auto
  with True show ?thesis
    by (auto simp: parse_component_parameters_def parsed_params_def dict_display_def)
next
  case False
  then show ?thesis
    by (simp add: parse_component_parameters_def parse_loop_eq parsed_params_def
                  dict_display_def)
qed







text \<open>The loop over the components, and what the grouped mapping holds.\<close>

lemma update_loop_eq:
  "i + length comps \<le> length vs \<Longrightarrow> i + length comps \<le> length iss \<Longrightarrow>
   \<exists>logs. update_loop comps i vs iss (d, l) =
            Inr (regroup comps (drop i vs) (drop i iss) d, logs)"
proof (induction comps arbitrary: i d l)
  case Nil
  show ?case by (cases "drop i vs") simp_all
next
  case (Cons c cs)
  then have lt: "i < length vs" "i < length iss" by simp_all
  then have dr: "drop i vs = (vs ! i) # drop (Suc i) vs"
    "drop i iss = (iss ! i) # drop (Suc i) iss"
    by (simp_all add: Cons_nth_drop_Suc)
  from Cons.prems have le: "Suc i + length cs \<le> length vs" "Suc i + length cs \<le> length iss"
    by simp_all
  from Cons.IH[OF le]
  have ih: "\<And>d l. \<exists>logs. update_loop cs (Suc i) vs iss (d, l) =
              Inr (regroup cs (drop (Suc i) vs) (drop (Suc i) iss) d, logs)" .
  show ?case
    using lt ih
    by (simp add: list_getitem_def parse_component_parameters_eq dr)
qed

lemma regroup_other:
  "c \<notin> set comps \<Longrightarrow> map_of (regroup comps vs iss d) c = map_of d c"
  by (induction comps vs iss d rule: regroup.induct)
     (auto simp: dict_setitem_def update_conv')

lemma regroup_at:
  "distinct comps \<Longrightarrow> k < length comps \<Longrightarrow> length comps \<le> length vs \<Longrightarrow>
   length comps \<le> length iss \<Longrightarrow>
   map_of (regroup comps vs iss d) (comps ! k) =
     (if parsed_params (vs ! k) (iss ! k) = [] then map_of d (comps ! k)
      else Some (parsed_params (vs ! k) (iss ! k)))"
proof (induction comps vs iss d arbitrary: k rule: regroup.induct)
  case (1 c cs v vs ids iss d)
  show ?case
  proof (cases k)
    case 0
    with "1.prems" show ?thesis
      by (simp add: regroup_other dict_setitem_def update_conv')
  next
    case (Suc k')
    with "1.prems" have ne: "cs ! k' \<noteq> c" by auto
    from Suc "1.prems" have pre: "distinct cs" "k' < length cs" "length cs \<le> length vs"
      "length cs \<le> length iss" by simp_all
    from "1.IH"[OF pre] Suc ne show ?thesis
      by (simp add: dict_setitem_def update_conv')
  qed
qed simp_all

section \<open>Lemmas about activation and the registry\<close>

text \<open>
  With three different store names the dictionary display of \<open>on_tab_activated\<close>
  has its three items as written.
\<close>

lemma on_tab_activated_updates:
  assumes "distinct [VIEWER_DATA_STORE_SUFFIX vmc, VIEWER_UI_STATE_STORE_SUFFIX vmc,
                     VIEWER_LAYOUT_CONFIG_STORE_SUFFIX vmc]"
  shows "fst (on_tab_activated self vmc registry r uuid4) =
           [(VIEWER_DATA_STORE_SUFFIX vmc,
             [(''key'', LIVE_DATA_KEY registry),
              (''version'',
               case get_current_version registry r (LIVE_DATA_KEY registry) of
                 None \<Rightarrow> uuid4 | Some v \<Rightarrow> v)]),
            (VIEWER_UI_STATE_STORE_SUFFIX vmc, []),
            (VIEWER_LAYOUT_CONFIG_STORE_SUFFIX vmc, [])]"
  using assms
  by (auto simp: on_tab_activated_def Let_def dict_display_def dict_setitem_def)

lemma registry_writes_other_key:
  "\<forall>w\<in>set ws. fst w \<noteq> key \<Longrightarrow>
   map_of (registry_writes nv ws reg) key = map_of reg key"
proof (induction ws arbitrary: reg)
  case Nil
  show ?case by (simp add: registry_writes_def)
next
  case (Cons w ws)
  obtain k p where w: "w = (k, p)" by (cases w)
  from Cons.prems w have ne: "k \<noteq> key" and rest: "\<forall>w\<in>set ws. fst w \<noteq> key" by auto
  have "registry_writes nv (w # ws) reg =
          registry_writes nv ws (snd (registry_write nv k p reg))"
    by (simp add: registry_writes_def w)
  with Cons.IH[OF rest] ne show ?case
    by (simp add: registry_write_def Let_def dict_setitem_def update_conv')
qed

lemma registry_read_is_written:
  "registry_read (registry_writes nv ws reg) key = Inr (p, v) \<Longrightarrow>
   (key, p, v) \<in> set (registry_history nv ws reg) \<or> registry_read reg key = Inr (p, v)"
proof (induction ws arbitrary: reg)
  case Nil
  then show ?case by (simp add: registry_writes_def)
next
  case (Cons w ws)
  obtain k q where w: "w = (k, q)" by (cases w)
  let ?reg' = "snd (registry_write nv k q reg)"
  have step: "registry_writes nv (w # ws) reg = registry_writes nv ws ?reg'"
    by (simp add: registry_writes_def w)
  from Cons.prems have "registry_read (registry_writes nv ws ?reg') key = Inr (p, v)"
    by (simp add: step)
  from Cons.IH[OF this]
  have "(key, p, v) \<in> set (registry_history nv ws ?reg') \<or>
        registry_read ?reg' key = Inr (p, v)" .
  then show ?case
  proof
    assume "(key, p, v) \<in> set (registry_history nv ws ?reg')"
    then show ?thesis by (simp add: w)
  next
    assume r: "registry_read ?reg' key = Inr (p, v)"
    show ?thesis
    proof (cases "k = key")
      case True
      with r have "p = q \<and> v = fst (registry_write nv k q reg)"
        by (simp add: registry_read_def registry_write_def Let_def dict_get_def
                      dict_setitem_def update_conv')
      with True show ?thesis by (simp add: w)
    next
      case False
      with r have "registry_read reg key = Inr (p, v)"
        by (simp add: registry_read_def registry_write_def Let_def dict_get_def
                      dict_setitem_def update_conv')
      then show ?thesis by simp
    qed
  qed
qed

section \<open>The concrete instances evaluated\<close>

lemma demo_click: "is_button_click demo_controller demo_button_id"
  by (simp add: is_button_click_def demo_button_id_def dict_get_def
                TOGGLE_ACQ_BUTTON_ID_SUFFIX_def)

lemma demo_no_click: "\<not> is_button_click demo_controller NoId"
  by (simp add: is_button_click_def)

lemma demo_status_running: "current_status_of (get_latest_data demo_acquirer 0) = ''RUNNING''"
  by (simp add: current_status_of_def demo_acquirer_def str_upper_def char_upper_def)

lemma demo_status_error: "current_status_of (get_latest_data demo_acquirer 1) = ''ERROR''"
  by (simp add: current_status_of_def demo_acquirer_def str_upper_def char_upper_def)

lemma demo_status_stopped: "current_status_of (get_latest_data demo_acquirer 2) = ''STOPPED''"
  by (simp add: current_status_of_def demo_acquirer_def str_upper_def char_upper_def)

lemma demo_parse:
  "parse_component_parameters (StrId ''x-axis'') demo_values demo_ids =
     Inr ([(''span'', 3), (''points'', 5)],
          [LogWarning (UnexpectedIdFormat (DictId [(''type'', ''x-axis'')]) (StrId ''x-axis''))])"
  by (simp add: parse_component_parameters_def parse_param_def dict_contains_def
                dict_getitem_def list_getitem_def dict_setitem_def demo_values_def
                demo_ids_def)

lemma demo_update:
  "handle_acquirer_parameter_update [''x-axis'', ''y-axis''] demo_acquirer
     [demo_values, []] [demo_ids, []] 0 =
     Inr (NoUpdate, 1,
          [LogWarning (UnexpectedIdFormat (DictId [(''type'', ''x-axis'')]) (StrId ''x-axis''))])"
proof -
  have e: "parse_component_parameters (StrId ''y-axis'') ([] :: int list) [] = Inr ([], [])"
    by (simp add: parse_component_parameters_def)
  show ?thesis
    by (simp add: handle_acquirer_parameter_update_def list_getitem_def demo_parse e
                  dict_setitem_def demo_acquirer_def)
qed



lemma demo_suffixes_distinct:
  "distinct [VIEWER_DATA_STORE_SUFFIX demo_video_mode_component,
             VIEWER_UI_STATE_STORE_SUFFIX demo_video_mode_component,
             VIEWER_LAYOUT_CONFIG_STORE_SUFFIX demo_video_mode_component]"
  by (simp add: demo_video_mode_component_def)

lemma demo_ids_differ:
  "get_id demo_controller TOGGLE_ACQ_BUTTON_ID_SUFFIX
     \<noteq> get_id demo_controller ACQUIRER_STATUS_INDICATOR_ID_SUFFIX"
  by (simp add: demo_controller_def TOGGLE_ACQ_BUTTON_ID_SUFFIX_def
                ACQUIRER_STATUS_INDICATOR_ID_SUFFIX_def)

section \<open>Properties of the controller and the registry\<close>

text \<open>
  Claim C1. When the toggle callback is triggered by the button: if the status the
  acquirer reports is RUNNING, the acquirer's state afterwards is the one
  \<open>stop_acquisition\<close> produces and the outputs are "Start Acquisition" / success and
  "STOPPED" / secondary; for every other status it is the one \<open>start_acquisition\<close>
  produces and the outputs are "Stop Acquisition" / danger and "RUNNING" / success.
  This holds for every acquirer, so the call made is exactly that one.
\<close>

theorem toggle_click_stops_or_starts:
  assumes "is_button_click self trig"
  shows "(current_status_of (get_latest_data acq s) = ''RUNNING'' \<longrightarrow>
            fst (handle_acquisition_control_and_status_update self acq trig s)
              = (''Start Acquisition'', ''success'', ''STOPPED'', ''secondary'') \<and>
            fst (snd (handle_acquisition_control_and_status_update self acq trig s))
              = stop_acquisition acq s) \<and>
         (current_status_of (get_latest_data acq s) \<noteq> ''RUNNING'' \<longrightarrow>
            fst (handle_acquisition_control_and_status_update self acq trig s)
              = (''Stop Acquisition'', ''danger'', ''RUNNING'', ''success'') \<and>
            fst (snd (handle_acquisition_control_and_status_update self acq trig s))
              = start_acquisition acq s)"
  using assms by (simp add: handle_acquisition_control_and_status_update_def Let_def)

theorem toggle_click_stops_or_starts_witness:
  "is_button_click demo_controller demo_button_id \<and>
   current_status_of (get_latest_data demo_acquirer 0) = ''RUNNING'' \<and>
   fst (handle_acquisition_control_and_status_update demo_controller demo_acquirer
          demo_button_id 0)
     = (''Start Acquisition'', ''success'', ''STOPPED'', ''secondary'') \<and>
   fst (snd (handle_acquisition_control_and_status_update demo_controller demo_acquirer
          demo_button_id 0)) = 1 \<and>
   current_status_of (get_latest_data demo_acquirer 2) \<noteq> ''RUNNING'' \<and>
   fst (handle_acquisition_control_and_status_update demo_controller demo_acquirer
          demo_button_id 2)
     = (''Stop Acquisition'', ''danger'', ''RUNNING'', ''success'') \<and>
   fst (snd (handle_acquisition_control_and_status_update demo_controller demo_acquirer
          demo_button_id 2)) = 12"
  using toggle_click_stops_or_starts [OF demo_click, of demo_acquirer 0]
        toggle_click_stops_or_starts [OF demo_click, of demo_acquirer 2]
        demo_click demo_status_running demo_status_stopped
  by (simp add: demo_acquirer_def)

text \<open>
  Claim C2. When the trigger is not the button, the acquirer's state after the callback is
  the state before it, whatever the acquirer's methods do, and the four outputs are a
  function of the snapshot alone: two acquirers with the same snapshot give the same
  outputs.
\<close>

theorem non_click_trigger_is_read_only:
  assumes "\<not> is_button_click self trig"
  shows "fst (snd (handle_acquisition_control_and_status_update self acq trig s)) = s \<and>
         (\<forall>acq' s'. get_latest_data acq' s' = get_latest_data acq s \<longrightarrow>
            fst (handle_acquisition_control_and_status_update self acq' trig s')
              = fst (handle_acquisition_control_and_status_update self acq trig s))"
  using assms by (simp add: handle_acquisition_control_and_status_update_def Let_def)

theorem non_click_trigger_is_read_only_witness:
  "\<not> is_button_click demo_controller NoId \<and>
   fst (snd (handle_acquisition_control_and_status_update demo_controller demo_acquirer
          NoId 0)) = 0 \<and>
   fst (handle_acquisition_control_and_status_update demo_controller demo_acquirer NoId 0)
     = (''Stop Acquisition'', ''danger'', ''RUNNING'', ''success'')"
  using non_click_trigger_is_read_only [OF demo_no_click, of demo_acquirer 0]
        demo_no_click demo_status_running
  by (simp add: handle_acquisition_control_and_status_update_def Let_def)

text \<open>
  Claim C3. On a trigger other than the button with the status ERROR, the button is
  "Start Acquisition" / success, the badge colour is danger, and the badge text is
  "ERROR", followed by ": " and the detail when the detail is truthy, cut to its first
  100 characters; it starts with "ERROR" and is at most 100 characters long.
\<close>

theorem error_status_badge_truncated:
  assumes "\<not> is_button_click self trig"
    and "current_status_of (get_latest_data acq s) = ''ERROR''"
  shows "\<exists>badge_text.
           fst (handle_acquisition_control_and_status_update self acq trig s)
             = (''Start Acquisition'', ''success'', badge_text, ''danger'') \<and>
           badge_text =
             take 100 (''ERROR'' @
               (if truthy (error_details_of (get_latest_data acq s))
                then '': '' @ to_str (error_details_of (get_latest_data acq s)) else [])) \<and>
           take 5 badge_text = ''ERROR'' \<and>
           length badge_text \<le> 100"
  using assms by (simp add: handle_acquisition_control_and_status_update_def Let_def)

theorem error_status_badge_truncated_witness:
  "\<not> is_button_click demo_controller NoId \<and>
   current_status_of (get_latest_data demo_acquirer 1) = ''ERROR'' \<and>
   fst (handle_acquisition_control_and_status_update demo_controller demo_acquirer NoId 1)
     = (''Start Acquisition'', ''success'', ''ERROR: '' @ replicate 93 CHR ''x'', ''danger'')"
proof -
  have e: "error_details_of (get_latest_data demo_acquirer 1) = PyStr (replicate 200 CHR ''x'')"
    by (simp add: error_details_of_def demo_acquirer_def)
  have t: "take 100 (''ERROR'' @ '': '' @ replicate 200 CHR ''x'') = ''ERROR: '' @ replicate 93 CHR ''x''"
    by simp
  from error_status_badge_truncated [OF demo_no_click demo_status_error]
  show ?thesis
    using demo_no_click demo_status_error e t by auto
qed



text \<open>
  Claim C5. Called with a value list and an id list for each component, whose ids are
  pairwise different, the parameter callback makes one call of
  \<open>update_parameters\<close>: the acquirer's state afterwards is the one that call
  produces on the grouped mapping. The grouped mapping holds, under each component's id,
  what \<open>_parse_component_parameters\<close> returned for it (names from the
  \<open>"index"\<close> fields to values) when that is not empty, and nothing under the id of
  a component with no parsed parameter or under any other key.
\<close>

theorem parameter_update_regroups_and_forwards:
  assumes "length comps \<le> length vs" and "length comps \<le> length iss"
    and "distinct comps"
  shows "\<exists>grouped logs.
           handle_acquirer_parameter_update comps acq vs iss s =
             Inr (NoUpdate, update_parameters acq grouped s, logs) \<and>
           (\<forall>k. k < length comps \<longrightarrow>
              (\<exists>p w. parse_component_parameters (StrId (comps ! k)) (vs ! k) (iss ! k) =
                       Inr (p, w) \<and>
                     p = dict_display (well_formed_pairs (vs ! k) (iss ! k)) \<and>
                     map_of grouped (comps ! k) = (if p = [] then None else Some p))) \<and>
           (\<forall>c. c \<notin> set comps \<longrightarrow> map_of grouped c = None)"
proof -
  from assms have "0 + length comps \<le> length vs" "0 + length comps \<le> length iss"
    by simp_all
  from update_loop_eq[OF this, of "[]" "[]"]
  obtain logs where loop: "update_loop comps 0 vs iss ([], []) =
      Inr (regroup comps vs iss [], logs)" by auto
  let ?grouped = "regroup comps vs iss []"
  have run: "handle_acquirer_parameter_update comps acq vs iss s =
      Inr (NoUpdate, update_parameters acq ?grouped s, logs)"
    by (simp add: handle_acquirer_parameter_update_def loop)
  have each: "\<forall>k. k < length comps \<longrightarrow>
      (\<exists>p w. parse_component_parameters (StrId (comps ! k)) (vs ! k) (iss ! k) = Inr (p, w) \<and>
             p = dict_display (well_formed_pairs (vs ! k) (iss ! k)) \<and>
             map_of ?grouped (comps ! k) = (if p = [] then None else Some p))"
  proof (intro allI impI)
    fix k assume k: "k < length comps"
    from regroup_at[OF assms(3) k assms(1) assms(2), of "[]"]
    have "map_of ?grouped (comps ! k) =
        (if parsed_params (vs ! k) (iss ! k) = [] then None
         else Some (parsed_params (vs ! k) (iss ! k)))" by simp
    then show "\<exists>p w. parse_component_parameters (StrId (comps ! k)) (vs ! k) (iss ! k) = Inr (p, w) \<and>
             p = dict_display (well_formed_pairs (vs ! k) (iss ! k)) \<and>
             map_of ?grouped (comps ! k) = (if p = [] then None else Some p)"
      by (simp add: parse_component_parameters_eq parsed_params_def)
  qed
  have other: "\<forall>c. c \<notin> set comps \<longrightarrow> map_of ?grouped c = None"
    by (simp add: regroup_other)
  from run each other show ?thesis by blast
qed

theorem parameter_update_regroups_and_forwards_witness:
  "length [''x-axis'', ''y-axis''] \<le> length [demo_values, []] \<and>
   length [''x-axis'', ''y-axis''] \<le> length [demo_ids, []] \<and>
   distinct [''x-axis'', ''y-axis''] \<and>
   handle_acquirer_parameter_update [''x-axis'', ''y-axis''] demo_acquirer
     [demo_values, []] [demo_ids, []] 0 =
     Inr (NoUpdate,
          update_parameters demo_acquirer [(''x-axis'', [(''span'', 3), (''points'', 5)])] 0,
          [LogWarning (UnexpectedIdFormat (DictId [(''type'', ''x-axis'')]) (StrId ''x-axis''))])"
proof -
  have h1: "length [''x-axis'', ''y-axis''] \<le> length [demo_values, []]" by simp
  have h2: "length [''x-axis'', ''y-axis''] \<le> length [demo_ids, []]" by simp
  have h3: "distinct [''x-axis'', ''y-axis'']" by simp
  have st: "update_parameters demo_acquirer [(''x-axis'', [(''span'', 3), (''points'', 5)])] 0 = 1"
    by (simp add: demo_acquirer_def)
  from parameter_update_regroups_and_forwards [OF h1 h2 h3, of demo_acquirer 0]
  show ?thesis
    using h1 h2 h3 by (simp add: demo_update st)
qed

text \<open>
  Claim C6. With three different store names, the mapping \<open>on_tab_activated\<close>
  returns holds, under the viewer's data store, the reserved live-data key with a
  version (the registry's current one, or the placeholder when there is none), and the
  empty mapping under the UI-state store and under the layout-configuration store.
\<close>

theorem on_tab_activated_points_viewer_at_live_data:
  assumes "distinct [VIEWER_DATA_STORE_SUFFIX vmc, VIEWER_UI_STATE_STORE_SUFFIX vmc,
                     VIEWER_LAYOUT_CONFIG_STORE_SUFFIX vmc]"
  shows "\<exists>version.
           dict_get (fst (on_tab_activated self vmc registry r uuid4))
               (VIEWER_DATA_STORE_SUFFIX vmc) =
             Some [(''key'', LIVE_DATA_KEY registry), (''version'', version)] \<and>
           dict_get (fst (on_tab_activated self vmc registry r uuid4))
               (VIEWER_UI_STATE_STORE_SUFFIX vmc) = Some [] \<and>
           dict_get (fst (on_tab_activated self vmc registry r uuid4))
               (VIEWER_LAYOUT_CONFIG_STORE_SUFFIX vmc) = Some [] \<and>
           version =
             (case get_current_version registry r (LIVE_DATA_KEY registry) of
                None \<Rightarrow> uuid4 | Some v \<Rightarrow> v)"
  using assms
  by (auto simp: on_tab_activated_updates dict_get_def)

theorem on_tab_activated_points_viewer_at_live_data_witness:
  "distinct [VIEWER_DATA_STORE_SUFFIX demo_video_mode_component,
             VIEWER_UI_STATE_STORE_SUFFIX demo_video_mode_component,
             VIEWER_LAYOUT_CONFIG_STORE_SUFFIX demo_video_mode_component] \<and>
   get_current_version demo_data_registry [(''live_data'', ''v7'')]
     (LIVE_DATA_KEY demo_data_registry) = Some ''v7'' \<and>
   dict_get (fst (on_tab_activated demo_controller demo_video_mode_component
                    demo_data_registry [(''live_data'', ''v7'')] ''uuid''))
     ''viewer-data-store'' = Some [(''key'', ''live_data''), (''version'', ''v7'')]"
  using on_tab_activated_points_viewer_at_live_data [OF demo_suffixes_distinct,
          of demo_controller demo_data_registry "[(''live_data'', ''v7'')]" "''uuid''"]
        demo_suffixes_distinct
  by (auto simp: demo_data_registry_def demo_video_mode_component_def)

text \<open>
  Claim C7. \<open>on_tab_deactivated\<close> returns the acquirer's state as it received
  it, for every acquirer: the snapshot the acquirer reports is the same before and after,
  and the only effect is one log record.
\<close>

theorem on_tab_deactivated_leaves_acquirer_alone:
  "fst (snd (on_tab_deactivated self acq s)) = s \<and>
   get_latest_data acq (fst (snd (on_tab_deactivated self acq s))) = get_latest_data acq s \<and>
   snd (snd (on_tab_deactivated self acq s)) = [LogInfo (TabDeactivated (component_id self))]"
  by (simp add: on_tab_deactivated_def)

text \<open>
  Claim C8. When the registry has no version for the live-data key,
  \<open>on_tab_activated\<close> still returns the whole mapping, with the string drawn from
  \<open>uuid.uuid4()\<close> as the version, and logs that it used a placeholder.
\<close>

theorem on_tab_activated_placeholder_version:
  assumes "get_current_version registry r (LIVE_DATA_KEY registry) = None"
    and "distinct [VIEWER_DATA_STORE_SUFFIX vmc, VIEWER_UI_STATE_STORE_SUFFIX vmc,
                   VIEWER_LAYOUT_CONFIG_STORE_SUFFIX vmc]"
  shows "on_tab_activated self vmc registry r uuid4 =
           ([(VIEWER_DATA_STORE_SUFFIX vmc,
              [(''key'', LIVE_DATA_KEY registry), (''version'', uuid4)]),
             (VIEWER_UI_STATE_STORE_SUFFIX vmc, []),
             (VIEWER_LAYOUT_CONFIG_STORE_SUFFIX vmc, [])],
            [LogInfo (TabActivated (component_id self)),
             LogDebug (NoLiveVersion (component_id self) uuid4)])"
proof -
  have "snd (on_tab_activated self vmc registry r uuid4) =
          [LogInfo (TabActivated (component_id self)),
           LogDebug (NoLiveVersion (component_id self) uuid4)]"
    using assms(1) by (simp add: on_tab_activated_def Let_def)
  moreover have "fst (on_tab_activated self vmc registry r uuid4) =
           [(VIEWER_DATA_STORE_SUFFIX vmc,
              [(''key'', LIVE_DATA_KEY registry), (''version'', uuid4)]),
             (VIEWER_UI_STATE_STORE_SUFFIX vmc, []),
             (VIEWER_LAYOUT_CONFIG_STORE_SUFFIX vmc, [])]"
    using assms by (simp add: on_tab_activated_updates)
  ultimately show ?thesis by (simp add: prod_eq_iff)
qed

theorem on_tab_activated_placeholder_version_witness:
  "get_current_version demo_data_registry [] (LIVE_DATA_KEY demo_data_registry) = None \<and>
   distinct [VIEWER_DATA_STORE_SUFFIX demo_video_mode_component,
             VIEWER_UI_STATE_STORE_SUFFIX demo_video_mode_component,
             VIEWER_LAYOUT_CONFIG_STORE_SUFFIX demo_video_mode_component] \<and>
   fst (on_tab_activated demo_controller demo_video_mode_component demo_data_registry []
          ''6f1c-placeholder'') =
     [(''viewer-data-store'', [(''key'', ''live_data''), (''version'', ''6f1c-placeholder'')]),
      (''viewer-ui-state-store'', []),
      (''viewer-layout-config-store'', [])]"
proof -
  have h: "get_current_version demo_data_registry [] (LIVE_DATA_KEY demo_data_registry) = None"
    by (simp add: demo_data_registry_def)
  from on_tab_activated_placeholder_version [OF h demo_suffixes_distinct,
          of demo_controller "''6f1c-placeholder''"]
  show ?thesis
    using h demo_suffixes_distinct
    by (simp add: demo_data_registry_def demo_video_mode_component_def)
qed

text \<open>
  Claim C9. A read of a key after a write of payload \<open>P\<close> to it, with any writes
  to other keys in between, returns \<open>P\<close> with the version that write returned, and
  the version query agrees with the read. And whatever a read returns after any run of
  writes to an empty registry is a payload together with the version that the write of
  that payload to that key reported.
\<close>

theorem registry_read_after_write:
  fixes nv :: "'ver option \<Rightarrow> 'ver" and P :: "'p"
  assumes "\<forall>w\<in>set ws. fst w \<noteq> key"
  shows "registry_read (registry_writes nv ws (snd (registry_write nv key P reg))) key =
           Inr (P, fst (registry_write nv key P reg)) \<and>
         registry_get_current_version
           (registry_writes nv ws (snd (registry_write nv key P reg))) key =
           Some (fst (registry_write nv key P reg)) \<and>
         (\<forall>all_writes k p v.
            registry_read (registry_writes nv all_writes ([] :: ('p, 'ver) registry)) k
              = Inr (p, v) \<longrightarrow>
            (k, p, v) \<in> set (registry_history nv all_writes []))"
proof -
  have same: "map_of (registry_writes nv ws (snd (registry_write nv key P reg))) key =
                map_of (snd (registry_write nv key P reg)) key"
    by (rule registry_writes_other_key[OF assms])
  have r: "registry_read (registry_writes nv ws (snd (registry_write nv key P reg))) key =
           Inr (P, fst (registry_write nv key P reg))"
    by (simp add: registry_read_def dict_get_def same)
       (simp add: registry_write_def Let_def dict_setitem_def update_conv')
  have g: "registry_get_current_version
           (registry_writes nv ws (snd (registry_write nv key P reg))) key =
           Some (fst (registry_write nv key P reg))"
    by (simp add: registry_get_current_version_def dict_get_def same)
       (simp add: registry_write_def Let_def dict_setitem_def update_conv'
                  registry_get_current_version_def dict_get_def)
  have h: "\<And>all_writes k p v.
            registry_read (registry_writes nv all_writes []) k = Inr (p, v) \<Longrightarrow>
            (k, p, v) \<in> set (registry_history nv all_writes ([] :: ('p, 'ver) registry))"
  proof -
    fix all_writes :: "(string \<times> 'p) list" and k p v
    assume "registry_read (registry_writes nv all_writes []) k = Inr (p, v)"
    from registry_read_is_written[OF this]
    show "(k, p, v) \<in> set (registry_history nv all_writes [])"
      by (simp add: registry_read_def dict_get_def)
  qed
  from r g h show ?thesis by blast
qed

theorem registry_read_after_write_witness:
  "''other'' \<noteq> ''live'' \<and>
   registry_read
     (registry_writes (\<lambda>v. case v of None \<Rightarrow> (0::nat) | Some n \<Rightarrow> n + 2)
        [(''other'', ''q'')]
        (snd (registry_write (\<lambda>v. case v of None \<Rightarrow> (0::nat) | Some n \<Rightarrow> n + 2)
                ''live'' ''p'' [(''live'', (''old'', 4))])))
     ''live'' = Inr (''p'', 6)"
proof -
  have h: "\<forall>w\<in>set [(''other'', ''q'')]. fst w \<noteq> ''live''" by simp
  from registry_read_after_write [OF h,
      where nv = "\<lambda>v. case v of None \<Rightarrow> (0::nat) | Some n \<Rightarrow> n + 2"
        and P = "''p''" and reg = "[(''live'', (''old'', 4))]"]
  show ?thesis
    by (simp add: registry_write_def registry_get_current_version_def dict_get_def)
qed

text \<open>
  Claim C10. Whatever the acquirer and its state, the layout holds under the toggle
  button's id a button with the text "Start Acquisition" and the colour success, and
  under the status indicator's id (a different id) a badge with the text "STOPPED" and
  the colour secondary. The status the acquirer reports shows only in what the callback
  returns: on a trigger other than the button, the outputs for RUNNING, for STOPPED, for
  ERROR with its detail, and for any other status as a warning; on a click, the outputs
  of the action taken.
\<close>

theorem get_layout_initial_controls:
  assumes "get_id self TOGGLE_ACQ_BUTTON_ID_SUFFIX
             \<noteq> get_id self ACQUIRER_STATUS_INDICATOR_ID_SUFFIX"
  shows "find_by_id (get_id self TOGGLE_ACQ_BUTTON_ID_SUFFIX) (fst (get_layout self acq s)) =
           Some (Component ''Button''
                   [(''id'', PId (get_id self TOGGLE_ACQ_BUTTON_ID_SUFFIX)),
                    (''color'', PStr ''success''),
                    (''className'', PStr ''me-1''),
                    (''style'', PStyle [(''width'', ''100%'')])]
                   [Text ''Start Acquisition'']) \<and>
         find_by_id (get_id self ACQUIRER_STATUS_INDICATOR_ID_SUFFIX)
             (fst (get_layout self acq s)) =
           Some (Component ''Badge''
                   [(''id'', PId (get_id self ACQUIRER_STATUS_INDICATOR_ID_SUFFIX)),
                    (''color'', PStr ''secondary''),
                    (''className'', PStr ''ms-1 p-2''),
                    (''style'', PStyle [(''fontSize'', ''0.9rem''), (''width'', ''100%''),
                                       (''textAlign'', ''center'')])]
                   [Text ''STOPPED'']) \<and>
         (\<not> is_button_click self trig \<longrightarrow>
            (current_status_of (get_latest_data acq s) = ''RUNNING'' \<longrightarrow>
               fst (handle_acquisition_control_and_status_update self acq trig s) =
                 (''Stop Acquisition'', ''danger'', ''RUNNING'', ''success'')) \<and>
            (current_status_of (get_latest_data acq s) = ''STOPPED'' \<longrightarrow>
               fst (handle_acquisition_control_and_status_update self acq trig s) =
                 (''Start Acquisition'', ''success'', ''STOPPED'', ''secondary'')) \<and>
            (current_status_of (get_latest_data acq s) = ''ERROR'' \<longrightarrow>
               fst (handle_acquisition_control_and_status_update self acq trig s) =
                 (''Start Acquisition'', ''success'',
                  take 100 (''ERROR'' @
                    (if truthy (error_details_of (get_latest_data acq s))
                     then '': '' @ to_str (error_details_of (get_latest_data acq s))
                     else [])),
                  ''danger'')) \<and>
            (current_status_of (get_latest_data acq s) \<notin> {''RUNNING'', ''STOPPED'', ''ERROR''} \<longrightarrow>
               fst (handle_acquisition_control_and_status_update self acq trig s) =
                 (''Start Acquisition'', ''warning'',
                  current_status_of (get_latest_data acq s), ''warning''))) \<and>
         (is_button_click self trig \<longrightarrow>
            (current_status_of (get_latest_data acq s) = ''RUNNING'' \<longrightarrow>
               fst (handle_acquisition_control_and_status_update self acq trig s) =
                 (''Start Acquisition'', ''success'', ''STOPPED'', ''secondary'')) \<and>
            (current_status_of (get_latest_data acq s) \<noteq> ''RUNNING'' \<longrightarrow>
               fst (handle_acquisition_control_and_status_update self acq trig s) =
                 (''Stop Acquisition'', ''danger'', ''RUNNING'', ''success'')))"
proof -
  have layout: "find_by_id (get_id self TOGGLE_ACQ_BUTTON_ID_SUFFIX)
                  (fst (get_layout self acq s)) =
           Some (Component ''Button''
                   [(''id'', PId (get_id self TOGGLE_ACQ_BUTTON_ID_SUFFIX)),
                    (''color'', PStr ''success''),
                    (''className'', PStr ''me-1''),
                    (''style'', PStyle [(''width'', ''100%'')])]
                   [Text ''Start Acquisition'']) \<and>
         find_by_id (get_id self ACQUIRER_STATUS_INDICATOR_ID_SUFFIX)
             (fst (get_layout self acq s)) =
           Some (Component ''Badge''
                   [(''id'', PId (get_id self ACQUIRER_STATUS_INDICATOR_ID_SUFFIX)),
                    (''color'', PStr ''secondary''),
                    (''className'', PStr ''ms-1 p-2''),
                    (''style'', PStyle [(''fontSize'', ''0.9rem''), (''width'', ''100%''),
                                       (''textAlign'', ''center'')])]
                   [Text ''STOPPED''])"
    using assms by (simp add: get_layout_def toggle_button_and_status_def)
  have callback: "(\<not> is_button_click self trig \<longrightarrow>
            (current_status_of (get_latest_data acq s) = ''RUNNING'' \<longrightarrow>
               fst (handle_acquisition_control_and_status_update self acq trig s) =
                 (''Stop Acquisition'', ''danger'', ''RUNNING'', ''success'')) \<and>
            (current_status_of (get_latest_data acq s) = ''STOPPED'' \<longrightarrow>
               fst (handle_acquisition_control_and_status_update self acq trig s) =
                 (''Start Acquisition'', ''success'', ''STOPPED'', ''secondary'')) \<and>
            (current_status_of (get_latest_data acq s) = ''ERROR'' \<longrightarrow>
               fst (handle_acquisition_control_and_status_update self acq trig s) =
                 (''Start Acquisition'', ''success'',
                  take 100 (''ERROR'' @
                    (if truthy (error_details_of (get_latest_data acq s))
                     then '': '' @ to_str (error_details_of (get_latest_data acq s))
                     else [])),
                  ''danger'')) \<and>
            (current_status_of (get_latest_data acq s) \<notin> {''RUNNING'', ''STOPPED'', ''ERROR''} \<longrightarrow>
               fst (handle_acquisition_control_and_status_update self acq trig s) =
                 (''Start Acquisition'', ''warning'',
                  current_status_of (get_latest_data acq s), ''warning''))) \<and>
         (is_button_click self trig \<longrightarrow>
            (current_status_of (get_latest_data acq s) = ''RUNNING'' \<longrightarrow>
               fst (handle_acquisition_control_and_status_update self acq trig s) =
                 (''Start Acquisition'', ''success'', ''STOPPED'', ''secondary'')) \<and>
            (current_status_of (get_latest_data acq s) \<noteq> ''RUNNING'' \<longrightarrow>
               fst (handle_acquisition_control_and_status_update self acq trig s) =
                 (''Stop Acquisition'', ''danger'', ''RUNNING'', ''success'')))"
    by (simp add: handle_acquisition_control_and_status_update_def Let_def)
  from layout callback show ?thesis by simp
qed

theorem get_layout_initial_controls_witness:
  "get_id demo_controller TOGGLE_ACQ_BUTTON_ID_SUFFIX
     \<noteq> get_id demo_controller ACQUIRER_STATUS_INDICATOR_ID_SUFFIX \<and>
   \<not> is_button_click demo_controller NoId \<and>
   current_status_of (get_latest_data demo_acquirer 0) = ''RUNNING'' \<and>
   current_status_of (get_latest_data demo_acquirer 1) = ''ERROR'' \<and>
   find_by_id demo_button_id (fst (get_layout demo_controller demo_acquirer 0)) =
     Some (Component ''Button''
             [(''id'', PId demo_button_id),
              (''color'', PStr ''success''),
              (''className'', PStr ''me-1''),
              (''style'', PStyle [(''width'', ''100%'')])]
             [Text ''Start Acquisition'']) \<and>
   find_by_id demo_button_id (fst (get_layout demo_controller demo_acquirer 1)) =
     find_by_id demo_button_id (fst (get_layout demo_controller demo_acquirer 0)) \<and>
   fst (handle_acquisition_control_and_status_update demo_controller demo_acquirer NoId 0) =
     (''Stop Acquisition'', ''danger'', ''RUNNING'', ''success'') \<and>
   fst (handle_acquisition_control_and_status_update demo_controller demo_acquirer NoId 1) =
     (''Start Acquisition'', ''success'', ''ERROR: '' @ replicate 93 CHR ''x'', ''danger'')"
proof -
  have b: "get_id demo_controller TOGGLE_ACQ_BUTTON_ID_SUFFIX = demo_button_id"
    by (simp add: demo_controller_def demo_button_id_def TOGGLE_ACQ_BUTTON_ID_SUFFIX_def)
  have e: "error_details_of (get_latest_data demo_acquirer (Suc 0)) =
             PyStr (replicate 200 CHR ''x'')"
    by (simp add: error_details_of_def demo_acquirer_def)
  note at0 = get_layout_initial_controls [OF demo_ids_differ, of demo_acquirer 0 NoId]
  note at1 = get_layout_initial_controls [OF demo_ids_differ, of demo_acquirer 1 NoId]
  from at0 have l0:
    "find_by_id demo_button_id (fst (get_layout demo_controller demo_acquirer 0)) =
     Some (Component ''Button''
             [(''id'', PId demo_button_id),
              (''color'', PStr ''success''),
              (''className'', PStr ''me-1''),
              (''style'', PStyle [(''width'', ''100%'')])]
             [Text ''Start Acquisition''])"
    by (simp add: b)
  from at1 have l1:
    "find_by_id demo_button_id (fst (get_layout demo_controller demo_acquirer 1)) =
     Some (Component ''Button''
             [(''id'', PId demo_button_id),
              (''color'', PStr ''success''),
              (''className'', PStr ''me-1''),
              (''style'', PStyle [(''width'', ''100%'')])]
             [Text ''Start Acquisition''])"
    by (simp add: b)
  from at0 demo_no_click demo_status_running have c0:
    "fst (handle_acquisition_control_and_status_update demo_controller demo_acquirer NoId 0) =
     (''Stop Acquisition'', ''danger'', ''RUNNING'', ''success'')"
    by simp
  from at1 demo_no_click demo_status_error have c1:
    "fst (handle_acquisition_control_and_status_update demo_controller demo_acquirer NoId 1) =
     (''Start Acquisition'', ''success'', ''ERROR: '' @ replicate 93 CHR ''x'', ''danger'')"
    by (simp add: e)
  from demo_ids_differ demo_no_click demo_status_running demo_status_error l0 l1 c0 c1
  show ?thesis by simp
qed

end
